theory Spec2Isabelle
  imports Main
begin

section \<open>Values of the host framework\<close>

text \<open>
  The operator \<open>mixed_dtype\<close> of \<open>functorch/experimental/mixed_dtype.py\<close> receives a
  wrapped operation, a target precision and an argument tuple. The values below are the
  Python values such a call can carry.
\<close>

datatype dtype = Bool | Int8 | Int32 | Int64 | Float16 | BFloat16 | Float32 | Float64

datatype device = cpu | cuda

text \<open>
  A tensor is either a real tensor (its device, its precision, its \<open>requires_grad\<close>
  flag and the identity of its contents) or a functionalized wrapper, created at a nesting
  level, around a real tensor. The numeric contents and their conversion are not modelled:
  a cast keeps the identity of the contents and changes the precision.
\<close>

datatype tensor = Real device dtype bool nat | FunctionalTensor int device dtype bool nat

fun device_of :: "tensor \<Rightarrow> device" where
  "device_of (Real dev d g c) = dev"
| "device_of (FunctionalTensor l dev d g c) = dev"

fun tensor_dtype :: "tensor \<Rightarrow> dtype" where
  "tensor_dtype (Real dev d g c) = d"
| "tensor_dtype (FunctionalTensor l dev d g c) = d"

fun requires_grad :: "tensor \<Rightarrow> bool" where
  "requires_grad (Real dev d g c) = g"
| "requires_grad (FunctionalTensor l dev d g c) = g"

fun is_floating_point :: "dtype \<Rightarrow> bool" where
  "is_floating_point Float16 = True"
| "is_floating_point BFloat16 = True"
| "is_floating_point Float32 = True"
| "is_floating_point Float64 = True"
| "is_floating_point d = False"

text \<open>
  \<open>arg.to(dtype=out_dtype)\<close>: a tensor that has the precision already is returned as it
  is; otherwise the result is on the same device, and it requires gradient tracking only
  if the tensor did and the new precision is a floating-point one.
\<close>

fun to_dtype :: "dtype \<Rightarrow> tensor \<Rightarrow> tensor" where
  "to_dtype d (Real dev d' g c) =
     (if d = d' then Real dev d' g c else Real dev d (g \<and> is_floating_point d) c)"
| "to_dtype d (FunctionalTensor l dev d' g c) =
     (if d = d' then FunctionalTensor l dev d' g c
      else FunctionalTensor l dev d (g \<and> is_floating_point d) c)"

text \<open>
  The first argument of the operator is any Python object: an \<open>OpOverload\<close>, another
  callable (an overload packet, a builtin, a plain function), or an object that cannot be
  called.
\<close>

datatype opref = OpOverload string | OtherCallable string | NotCallable string

datatype pyval =
    PTensor tensor
  | PNone
  | PBool bool
  | PInt int
  | PStr string
  | PDtype dtype
  | POp opref
  | PProxy nat
  | PTuple "pyval list"
  | PList "pyval list"
  | PDict "(string \<times> pyval) list"

datatype exn =
    ValueError string
  | AssertionError
  | TypeError
  | AttributeError
  | NotImplementedError
  | RuntimeError
  | RecursionError
  | OpError string

section \<open>Pytrees\<close>

text \<open>
  Modelled from the spec: \<open>torch.utils._pytree\<close> is not part of the source file. Tuples,
  lists and dictionaries are containers, every other value is a leaf; \<open>tree_map\<close> applies
  a function to every leaf "recursively, preserving container shape", \<open>tree_map_only\<close>
  applies it to the leaves of one type only, and \<open>tree_flatten\<close> lists the leaves in
  order together with the container structure.
\<close>

primrec tree_map :: "(pyval \<Rightarrow> pyval) \<Rightarrow> pyval \<Rightarrow> pyval" where
  "tree_map f (PTensor t) = f (PTensor t)"
| "tree_map f PNone = f PNone"
| "tree_map f (PBool b) = f (PBool b)"
| "tree_map f (PInt i) = f (PInt i)"
| "tree_map f (PStr s) = f (PStr s)"
| "tree_map f (PDtype d) = f (PDtype d)"
| "tree_map f (POp p) = f (POp p)"
| "tree_map f (PProxy n) = f (PProxy n)"
| "tree_map f (PTuple xs) = PTuple (map (tree_map f) xs)"
| "tree_map f (PList xs) = PList (map (tree_map f) xs)"
| "tree_map f (PDict kvs) = PDict (map (map_prod id (tree_map f)) kvs)"

primrec tree_leaves :: "pyval \<Rightarrow> pyval list" where
  "tree_leaves (PTensor t) = [PTensor t]"
| "tree_leaves PNone = [PNone]"
| "tree_leaves (PBool b) = [PBool b]"
| "tree_leaves (PInt i) = [PInt i]"
| "tree_leaves (PStr s) = [PStr s]"
| "tree_leaves (PDtype d) = [PDtype d]"
| "tree_leaves (POp p) = [POp p]"
| "tree_leaves (PProxy n) = [PProxy n]"
| "tree_leaves (PTuple xs) = concat (map tree_leaves xs)"
| "tree_leaves (PList xs) = concat (map tree_leaves xs)"
| "tree_leaves (PDict kvs) = concat (map snd (map (map_prod id tree_leaves) kvs))"

datatype treespec =
    LeafSpec
  | TupleSpec "treespec list"
  | ListSpec "treespec list"
  | DictSpec "(string \<times> treespec) list"

primrec tree_structure :: "pyval \<Rightarrow> treespec" where
  "tree_structure (PTensor t) = LeafSpec"
| "tree_structure PNone = LeafSpec"
| "tree_structure (PBool b) = LeafSpec"
| "tree_structure (PInt i) = LeafSpec"
| "tree_structure (PStr s) = LeafSpec"
| "tree_structure (PDtype d) = LeafSpec"
| "tree_structure (POp p) = LeafSpec"
| "tree_structure (PProxy n) = LeafSpec"
| "tree_structure (PTuple xs) = TupleSpec (map tree_structure xs)"
| "tree_structure (PList xs) = ListSpec (map tree_structure xs)"
| "tree_structure (PDict kvs) = DictSpec (map (map_prod id tree_structure) kvs)"

definition tree_flatten :: "pyval \<Rightarrow> pyval list \<times> treespec" where
  "tree_flatten v = (tree_leaves v, tree_structure v)"

text \<open>\<open>isinstance(x, torch.Tensor)\<close>.\<close>

fun is_tensor :: "pyval \<Rightarrow> bool" where
  "is_tensor (PTensor t) = True"
| "is_tensor v = False"

definition tree_map_only :: "(pyval \<Rightarrow> bool) \<Rightarrow> (pyval \<Rightarrow> pyval) \<Rightarrow> pyval \<Rightarrow> pyval" where
  "tree_map_only ty f v = tree_map (\<lambda>x. if ty x then f x else x) v"


section \<open>Dispatcher state\<close>

text \<open>
  The dispatch keys the source names, together with the keys of the host framework that
  stand for an active dispatch mode (\<open>Python\<close>), an active functorch interpreter
  (\<open>FuncTorchDynamicLayerFrontMode\<close>), the backend of a tensor (\<open>CPU\<close>, \<open>CUDA\<close>)
  and the autograd key of the other backend (\<open>AutogradCUDA\<close>). \<open>Autograd\<close> is the alias
  key that stands for the autograd key of every backend.
\<close>

datatype dispatch_key =
    PythonDispatcher
  | PythonTLSSnapshot
  | ADInplaceOrView
  | BackendSelect
  | AutocastCPU
  | CompositeExplicitAutograd
  | Autograd
  | AutogradCPU
  | AutogradCUDA
  | Functionalize
  | Python
  | FuncTorchDynamicLayerFrontMode
  | CPU
  | CUDA

fun autograd_key :: "device \<Rightarrow> dispatch_key" where
  "autograd_key cpu = AutogradCPU"
| "autograd_key cuda = AutogradCUDA"

record proxy_mode =
  enable_tracing :: bool
  tracer :: nat

datatype mode = ProxyTorchDispatchMode proxy_mode | FakeTensorMode

datatype transform_type = TT_Functionalize | TT_Vmap | TT_Grad | TT_Jvp

record interpreter =
  transform :: transform_type
  level :: int
  functionalize_add_back_views :: bool

record node =
  n_kind :: string
  n_target :: string
  n_args :: "pyval list"
  n_kwargs :: "(string \<times> pyval) list"
  n_name :: string

record tracer_state =
  graph :: "node list"
  tensor_tracker :: "(tensor \<times> nat) list"

text \<open>
  The process-wide state the handlers read and toggle: the thread-local set of excluded
  dispatch keys, the stack of dispatch modes (innermost first), the stack of functorch
  interpreters (innermost first), the thread-local \<open>reapply_views\<close> flag of
  functionalization, the tracers (by address), the log of the invocations of wrapped
  operations, oldest first, and the guards that are still alive because the traceback of
  a propagating exception references the frame that owns them.
\<close>

record dstate =
  excluded :: "dispatch_key set"
  mode_stack :: "mode list"
  interpreter_stack :: "interpreter list"
  reapply_views_tls :: bool
  tracers :: "nat \<Rightarrow> tracer_state"
  calls :: "(opref \<times> pyval list) list"
  held_by_traceback :: "dispatch_key set list"

type_synonym outcome = "(exn + pyval) \<times> dstate"

text \<open>The behaviour of the callables of the host framework: a parameter of the model.\<close>

type_synonym impl = "opref \<Rightarrow> pyval list \<Rightarrow> exn + pyval"

text \<open>The re-invocation \<open>mixed_dtype(op, out_dtype, *args)\<close> as the handlers see it.\<close>

type_synonym dispatcher = "opref \<Rightarrow> dtype \<Rightarrow> pyval list \<Rightarrow> dstate \<Rightarrow> outcome"

text \<open>
  \<open>op(*casted_args)\<close>: calling an object that is not callable raises \<open>TypeError\<close>; any
  callable runs, and the invocation is logged.
\<close>

fun is_callable :: "opref \<Rightarrow> bool" where
  "is_callable (NotCallable n) = False"
| "is_callable p = True"

definition call_op :: "impl \<Rightarrow> opref \<Rightarrow> pyval list \<Rightarrow> dstate \<Rightarrow> outcome" where
  "call_op run op args st =
     (if is_callable op then (run op args, st\<lparr>calls := calls st @ [(op, args)]\<rparr>)
      else (Inl TypeError, st))"

section \<open>Observations on pytrees\<close>

fun leaf_tensor :: "pyval \<Rightarrow> tensor list" where
  "leaf_tensor (PTensor t) = [t]"
| "leaf_tensor v = []"

definition tensors_of :: "pyval \<Rightarrow> tensor list" where
  "tensors_of v = concat (map leaf_tensor (tree_leaves v))"

definition args_tensors :: "pyval list \<Rightarrow> tensor list" where
  "args_tensors args = concat (map tensors_of args)"

definition all_of_dtype :: "dtype \<Rightarrow> pyval \<Rightarrow> bool" where
  "all_of_dtype d v = list_all (\<lambda>t. tensor_dtype t = d) (tensors_of v)"

text \<open>
  Whether a tensor is a functionalized wrapper, the level of the wrapper, the real tensor
  under it, and whether a tensor is on the CPU.
\<close>

fun is_functional :: "tensor \<Rightarrow> bool" where
  "is_functional (FunctionalTensor l dev d g c) = True"
| "is_functional (Real dev d g c) = False"


fun unwrap_tensor :: "tensor \<Rightarrow> tensor" where
  "unwrap_tensor (FunctionalTensor l dev d g c) = Real dev d g c"
| "unwrap_tensor (Real dev d g c) = Real dev d g c"


fun is_leaf :: "pyval \<Rightarrow> bool" where
  "is_leaf (PTuple xs) = False"
| "is_leaf (PList xs) = False"
| "is_leaf (PDict kvs) = False"
| "is_leaf v = True"

section \<open>The operator and its handlers\<close>

text \<open>
  \<open>mixed_dtype = HigherOrderOperator("mixed_dtype")\<close> and the five keys declared as
  pass-through.
\<close>

record higher_order_operator =
  op_name :: string
  fallthrough :: "dispatch_key list"

definition mixed_dtype_operator :: higher_order_operator where
  "mixed_dtype_operator =
     \<lparr>op_name = ''mixed_dtype'',
      fallthrough = [PythonDispatcher, PythonTLSSnapshot, ADInplaceOrView, BackendSelect,
                     AutocastCPU]\<rparr>"

text \<open>
  \<open>lambda arg: arg.to(dtype=out_dtype)\<close>. \<open>tree_map_only\<close> applies it to tensors only;
  the second equation is never reached.
\<close>

fun cast_arg :: "dtype \<Rightarrow> pyval \<Rightarrow> pyval" where
  "cast_arg d (PTensor t) = PTensor (to_dtype d t)"
| "cast_arg d v = v"

text \<open>
  The argument tuple \<open>*args\<close> is the list of its items; mapping over the tuple is mapping
  over each item.
\<close>

definition mixed_dtype_dense :: "impl \<Rightarrow> opref \<Rightarrow> dtype \<Rightarrow> pyval list \<Rightarrow> dstate \<Rightarrow> outcome" where
  "mixed_dtype_dense run op out_dtype args st =
     (let casted_args = map (tree_map_only is_tensor (cast_arg out_dtype)) args;
          res = call_op run op casted_args st
      in res)"

definition mixed_dtype_fake_tensor_mode ::
  "impl \<Rightarrow> opref \<Rightarrow> dtype \<Rightarrow> pyval list \<Rightarrow> dstate \<Rightarrow> outcome" where
  "mixed_dtype_fake_tensor_mode run op out_dtype args st =
     mixed_dtype_dense run op out_dtype args st"

subsection \<open>Scoped guards\<close>

text \<open>
  Modelled from the spec: \<open>torch._C.ExcludeDispatchKeyGuard\<close> is not part of the source
  file. The guards "follow strict scoped acquire/release discipline": creating the guard
  adds the keys that are not excluded yet to the excluded set and remembers them,
  destroying it removes exactly those.
\<close>

definition ExcludeDispatchKeyGuard :: "dispatch_key set \<Rightarrow> dstate \<Rightarrow> dispatch_key set \<times> dstate" where
  "ExcludeDispatchKeyGuard ks st =
     (let added = ks - excluded st
      in (added, st\<lparr>excluded := excluded st \<union> added\<rparr>))"

definition del_guard :: "dispatch_key set \<Rightarrow> dstate \<Rightarrow> dstate" where
  "del_guard added st = st\<lparr>excluded := excluded st - added\<rparr>"

text \<open>
  \<open>try: body finally: cleanup\<close> and \<open>with ctx: body\<close>: the cleanup runs on the state the
  body leaves, whether the body returned or raised, and the outcome of the body is kept.
\<close>

definition try_finally :: "(dstate \<Rightarrow> outcome) \<Rightarrow> (dstate \<Rightarrow> dstate) \<Rightarrow> dstate \<Rightarrow> outcome" where
  "try_finally body cleanup st = (let (res, st') = body st in (res, cleanup st'))"

subsection \<open>Autograd handler\<close>

fun requires_grad_of :: "pyval \<Rightarrow> bool" where
  "requires_grad_of (PTensor t) = requires_grad t"
| "requires_grad_of v = False"

text \<open>Python's \<open>all\<close> on a list of booleans.\<close>

definition py_all :: "bool list \<Rightarrow> bool" where
  "py_all bs = list_all (\<lambda>b. b) bs"

text \<open>
  The guard is bound to the local \<open>_\<close>: it lives while the re-invocation runs and is
  destroyed when the handler returns. When the re-invocation raises, the handler's frame,
  and the guard with it, stays referenced by the traceback of the exception that is
  propagating, so the state that accompanies the exception still has the guard's keys
  excluded; they are released when the traceback is dropped, outside the handler
  (\<open>drop_traceback\<close>).
\<close>

definition drop_traceback :: "dstate \<Rightarrow> dstate" where
  "drop_traceback st =
     st\<lparr>excluded := excluded st - \<Union> (set (held_by_traceback st)), held_by_traceback := []\<rparr>"

definition mixed_dtype_autograd ::
  "dispatcher \<Rightarrow> opref \<Rightarrow> dtype \<Rightarrow> pyval list \<Rightarrow> dstate \<Rightarrow> outcome" where
  "mixed_dtype_autograd mixed_dtype op out_dtype args st =
     (let (flat_operands, spec) = tree_flatten (PTuple args)
      in if \<not> py_all (map (\<lambda>f. \<not> requires_grad_of f) (filter is_tensor flat_operands))
         then (Inl AssertionError, st)
         else
           (let (guard, st1) = ExcludeDispatchKeyGuard {AutogradCPU} st;
                (res, st2) = mixed_dtype op out_dtype args st1
            in case res of
                 Inr v \<Rightarrow> (Inr v, del_guard guard st2)
               | Inl e \<Rightarrow> (Inl e, st2\<lparr>held_by_traceback := guard # held_by_traceback st2\<rparr>)))"

subsection \<open>Trace handler\<close>

text \<open>
  Modelled from the spec: the tracing helpers of \<open>torch.fx.experimental.proxy_tensor\<close>
  are not part of the source file. \<open>disable_proxy_modes_tracing\<close> "disables capture
  recursion" for the modes on the stack and restores their flags on exit; \<open>unwrap_proxy\<close>
  replaces a tensor the tracer tracks by its proxy and leaves every other value alone;
  \<open>create_proxy\<close> appends one node to the tracer's graph and returns its proxy;
  \<open>track_tensor_tree\<close> "associates the concrete result with that graph node" and returns
  the concrete result.
\<close>

fun disable_mode :: "mode \<Rightarrow> mode" where
  "disable_mode (ProxyTorchDispatchMode pm) = ProxyTorchDispatchMode (pm\<lparr>enable_tracing := False\<rparr>)"
| "disable_mode FakeTensorMode = FakeTensorMode"

definition disable_proxy_modes_tracing :: "(dstate \<Rightarrow> outcome) \<Rightarrow> dstate \<Rightarrow> outcome" where
  "disable_proxy_modes_tracing body st =
     (let olds = mode_stack st
      in try_finally body (\<lambda>s. s\<lparr>mode_stack := olds\<rparr>)
           (st\<lparr>mode_stack := map disable_mode (mode_stack st)\<rparr>))"

definition unwrap_proxy :: "tracer_state \<Rightarrow> pyval \<Rightarrow> pyval" where
  "unwrap_proxy tr e =
     (case e of
        PTensor t \<Rightarrow> (case map_of (tensor_tracker tr) t of Some p \<Rightarrow> PProxy p | None \<Rightarrow> e)
      | _ \<Rightarrow> e)"

definition create_proxy ::
  "nat \<Rightarrow> string \<Rightarrow> string \<Rightarrow> pyval list \<Rightarrow> (string \<times> pyval) list \<Rightarrow> string \<Rightarrow> dstate \<Rightarrow> nat \<times> dstate" where
  "create_proxy a kind target args kwargs name st =
     (let tr = tracers st a;
          nd = \<lparr>n_kind = kind, n_target = target, n_args = args, n_kwargs = kwargs,
                n_name = name\<rparr>
      in (length (graph tr), st\<lparr>tracers := (tracers st)(a := tr\<lparr>graph := graph tr @ [nd]\<rparr>)\<rparr>))"

definition track_tensor_tree :: "pyval \<Rightarrow> nat \<Rightarrow> nat \<Rightarrow> dstate \<Rightarrow> pyval \<times> dstate" where
  "track_tensor_tree inner_res proxy_res a st =
     (let tr = tracers st a;
          slots = map (\<lambda>t. (t, proxy_res)) (tensors_of inner_res)
      in (inner_res,
          st\<lparr>tracers := (tracers st)(a := tr\<lparr>tensor_tracker := slots @ tensor_tracker tr\<rparr>)\<rparr>))"

fun is_OpOverload :: "opref \<Rightarrow> bool" where
  "is_OpOverload (OpOverload n) = True"
| "is_OpOverload p = False"

definition trace_mixed_dtype ::
  "impl \<Rightarrow> proxy_mode \<Rightarrow> higher_order_operator \<Rightarrow> opref \<Rightarrow> dtype \<Rightarrow> pyval list \<Rightarrow> dstate \<Rightarrow> outcome" where
  "trace_mixed_dtype run proxy_mode func_overload op out_dtype args st =
     (if \<not> is_OpOverload op
      then (Inl (ValueError ''mixed_dtype's first argument must be an OpOverload''), st)
      else
        (let (res, st1) =
               disable_proxy_modes_tracing
                 (\<lambda>s. let casted_args = map (tree_map_only is_tensor (cast_arg out_dtype)) args
                      in call_op run op casted_args s) st
         in case res of
              Inl e \<Rightarrow> (Inl e, st1)
            | Inr out \<Rightarrow>
                (let node_args = POp op # PDtype out_dtype # args;
                     proxy_args = map (tree_map (unwrap_proxy (tracers st1 (tracer proxy_mode)))) node_args;
                     (out_proxy, st2) =
                        create_proxy (tracer proxy_mode) ''call_function'' (op_name func_overload)
                          proxy_args [] ''mixed_dtype'' st1;
                     (tracked, st3) = track_tensor_tree out out_proxy (tracer proxy_mode) st2
                 in (Inr tracked, st3))))"

text \<open>
  \<open>_pop_mode_temporarily\<close> pops the innermost mode and pushes it back on exit. The handler
  is registered for \<open>ProxyTorchDispatchMode\<close>; a mode without \<open>enable_tracing\<close> raises
  \<open>AttributeError\<close>.
\<close>

definition mixed_dtype_proxy ::
  "dispatcher \<Rightarrow> impl \<Rightarrow> opref \<Rightarrow> dtype \<Rightarrow> pyval list \<Rightarrow> dstate \<Rightarrow> outcome" where
  "mixed_dtype_proxy mixed_dtype run op out_dtype args st =
     (case mode_stack st of
        [] \<Rightarrow> (Inl AssertionError, st)
      | m # rest \<Rightarrow>
          try_finally
            (\<lambda>s. case m of
                   ProxyTorchDispatchMode pm \<Rightarrow>
                     if enable_tracing pm
                     then trace_mixed_dtype run pm mixed_dtype_operator op out_dtype args s
                     else mixed_dtype op out_dtype args s
                 | FakeTensorMode \<Rightarrow> (Inl AttributeError, s))
            (\<lambda>s. s\<lparr>mode_stack := m # mode_stack s\<rparr>)
            (st\<lparr>mode_stack := rest\<rparr>))"

subsection \<open>Functionalization handlers\<close>

text \<open>
  Modelled from the spec: the helpers of \<open>torch._functorch.eager_transforms\<close> are not part
  of the source file. \<open>_unwrap_all_tensors_from_functional\<close> "unwraps every functionalized
  tensor wrapper ... to its underlying real tensor" (a tensor that is not wrapped stays as
  it is; \<open>reapply_views\<close> concerns the contents only), and
  \<open>_wrap_all_tensors_to_functional\<close> "re-wraps the result as a functionalized tensor" at
  the level given: every tensor of the pytree is wrapped. A wrapper is around a real
  tensor, so a tensor that is functionalized already cannot be wrapped again: the helper
  raises.
\<close>

fun unwrap_functional :: "bool \<Rightarrow> pyval \<Rightarrow> pyval" where
  "unwrap_functional rv (PTensor t) = PTensor (unwrap_tensor t)"
| "unwrap_functional rv v = v"

definition unwrap_all_tensors_from_functional :: "pyval \<Rightarrow> bool \<Rightarrow> pyval" where
  "unwrap_all_tensors_from_functional v reapply_views = tree_map (unwrap_functional reapply_views) v"

fun wrap_tensor :: "int \<Rightarrow> tensor \<Rightarrow> tensor" where
  "wrap_tensor l (Real dev d g c) = FunctionalTensor l dev d g c"
| "wrap_tensor l (FunctionalTensor l' dev d g c) = FunctionalTensor l' dev d g c"

fun wrap_functional :: "int \<Rightarrow> pyval \<Rightarrow> pyval" where
  "wrap_functional l (PTensor t) = PTensor (wrap_tensor l t)"
| "wrap_functional l v = v"

definition wrap_all_tensors_to_functional :: "pyval \<Rightarrow> int \<Rightarrow> exn + pyval" where
  "wrap_all_tensors_to_functional v l =
     (if list_ex is_functional (tensors_of v) then Inl RuntimeError
      else Inr (tree_map (wrap_functional l) v))"

text \<open>The handler registered for \<open>DispatchKey.Functionalize\<close>.\<close>

definition mixed_dtype_func_key ::
  "dispatcher \<Rightarrow> opref \<Rightarrow> dtype \<Rightarrow> pyval list \<Rightarrow> dstate \<Rightarrow> outcome" where
  "mixed_dtype_func_key mixed_dtype op out_dtype args st =
     (let reapply_views = reapply_views_tls st;
          unwrapped_args = map (\<lambda>arg. unwrap_all_tensors_from_functional arg reapply_views) args;
          (guard, st1) = ExcludeDispatchKeyGuard {Functionalize} st
      in try_finally
           (\<lambda>s. let (res, s') = mixed_dtype op out_dtype unwrapped_args s
                in case res of
                     Inl e \<Rightarrow> (Inl e, s')
                   | Inr r \<Rightarrow> (wrap_all_tensors_to_functional r 0, s'))
           (del_guard guard) st1)"

text \<open>
  The handler registered for \<open>TransformType.Functionalize\<close>. \<open>interpreter.lower()\<close>
  takes the innermost interpreter off the stack and puts it back on exit; with no
  interpreter on the stack it raises.
\<close>

definition lower :: "(dstate \<Rightarrow> outcome) \<Rightarrow> dstate \<Rightarrow> outcome" where
  "lower body st =
     (case interpreter_stack st of
        [] \<Rightarrow> (Inl RuntimeError, st)
      | i # rest \<Rightarrow>
          try_finally body (\<lambda>s. s\<lparr>interpreter_stack := i # interpreter_stack s\<rparr>)
            (st\<lparr>interpreter_stack := rest\<rparr>))"

definition mixed_dtype_func_interp ::
  "dispatcher \<Rightarrow> interpreter \<Rightarrow> opref \<Rightarrow> dtype \<Rightarrow> pyval list \<Rightarrow> dstate \<Rightarrow> outcome" where
  "mixed_dtype_func_interp mixed_dtype interp op out_dtype args st =
     (let reapply_views = functionalize_add_back_views interp;
          unwrapped_args = map (\<lambda>arg. unwrap_all_tensors_from_functional arg reapply_views) args
      in lower
           (\<lambda>s. let (res, s') = mixed_dtype op out_dtype unwrapped_args s
                in case res of
                     Inl e \<Rightarrow> (Inl e, s')
                   | Inr r \<Rightarrow> (wrap_all_tensors_to_functional r (level interp), s'))
           st)"

section \<open>The dispatcher\<close>

text \<open>
  Modelled from the spec: the dispatcher of the host framework, which runs when the
  operator is called (\<open>HigherOrderOperator.__call__\<close>), is not part of the source file.
  "Control flows from whichever entry point the host framework selects (based on currently
  active mode stack) into exactly one handler; handlers may recursively re-invoke the same
  operator to reach a different, more specific handler (e.g., autograd handler re-enters
  dispatch after excluding the autograd key)." An active functorch interpreter is served
  first, by the handler of its transform (only \<open>Functionalize\<close> has one); then the
  autograd handler, which is registered under the alias key \<open>Autograd\<close> and so serves the
  autograd key of the backend of every tensor argument, unless that key is excluded; then
  the functionalization key of functionalized tensor arguments, unless excluded; then the
  innermost dispatch mode; otherwise the dense handler, which is registered for every
  backend. The pass-through keys select nothing.
\<close>

datatype handler =
    DenseHandler
  | AutogradHandler
  | ProxyHandler
  | FakeHandler
  | FunctionalizeKeyHandler
  | FunctionalizeInterpreterHandler interpreter
  | NoHandler

definition select_handler :: "dstate \<Rightarrow> pyval list \<Rightarrow> handler" where
  "select_handler st args =
     (case interpreter_stack st of
        i # rest \<Rightarrow>
          if transform i = TT_Functionalize then FunctionalizeInterpreterHandler i else NoHandler
      | [] \<Rightarrow>
          if list_ex (\<lambda>t. autograd_key (device_of t) \<notin> excluded st) (args_tensors args)
          then AutogradHandler
          else if list_ex is_functional (args_tensors args) \<and> Functionalize \<notin> excluded st
          then FunctionalizeKeyHandler
          else (case mode_stack st of
                  [] \<Rightarrow> DenseHandler
                | ProxyTorchDispatchMode pm # ms \<Rightarrow> ProxyHandler
                | FakeTensorMode # ms \<Rightarrow> FakeHandler))"

text \<open>
  The first argument bounds the depth of the re-invocations, as Python's recursion limit
  does: at depth zero the call raises \<open>RecursionError\<close>.
\<close>

primrec mixed_dtype :: "nat \<Rightarrow> impl \<Rightarrow> opref \<Rightarrow> dtype \<Rightarrow> pyval list \<Rightarrow> dstate \<Rightarrow> outcome" where
  "mixed_dtype 0 run op out_dtype args st = (Inl RecursionError, st)"
| "mixed_dtype (Suc n) run op out_dtype args st =
     (case select_handler st args of
        DenseHandler \<Rightarrow> mixed_dtype_dense run op out_dtype args st
      | AutogradHandler \<Rightarrow> mixed_dtype_autograd (mixed_dtype n run) op out_dtype args st
      | ProxyHandler \<Rightarrow> mixed_dtype_proxy (mixed_dtype n run) run op out_dtype args st
      | FakeHandler \<Rightarrow> mixed_dtype_fake_tensor_mode run op out_dtype args st
      | FunctionalizeKeyHandler \<Rightarrow> mixed_dtype_func_key (mixed_dtype n run) op out_dtype args st
      | FunctionalizeInterpreterHandler i \<Rightarrow>
          mixed_dtype_func_interp (mixed_dtype n run) i op out_dtype args st
      | NoHandler \<Rightarrow> (Inl NotImplementedError, st))"

section \<open>Observations on a call and sample inputs\<close>





text \<open>
  A state with nothing excluded, no mode, no interpreter and empty tracers; an operation
  that returns its first argument (\<open>None\<close> without arguments), as a copy does; an
  operation that returns a boolean tensor whatever the precision of its arguments, as a
  comparison does; and an operation that raises.
\<close>

definition idle_state :: dstate where
  "idle_state =
     \<lparr>excluded = {}, mode_stack = [], interpreter_stack = [], reapply_views_tls = True,
      tracers = (\<lambda>a. \<lparr>graph = [], tensor_tracker = []\<rparr>), calls = [],
      held_by_traceback = []\<rparr>"

definition first_arg_run :: impl where
  "first_arg_run op args = (case args of [] \<Rightarrow> Inr PNone | a # rest \<Rightarrow> Inr a)"


definition failing_run :: impl where
  "failing_run op args = Inl (OpError ''shape mismatch'')"


section \<open>Pytree lemmas\<close>


lemma tree_leaves_leaf: "is_leaf v \<Longrightarrow> tree_leaves v = [v]"
  by (cases v) simp_all

lemma tree_structure_leaf: "is_leaf v \<Longrightarrow> tree_structure v = LeafSpec"
  by (cases v) simp_all

lemma tree_leaves_tree_map:
  assumes "\<And>x. is_leaf x \<Longrightarrow> is_leaf (f x)"
  shows "tree_leaves (tree_map f v) = map f (tree_leaves v)"
proof (induction v)
  case (PTuple xs)
  then show ?case by (simp add: map_concat comp_def cong: map_cong)
next
  case (PList xs)
  then show ?case by (simp add: map_concat comp_def cong: map_cong)
next
  case (PDict kvs)
  have "map (\<lambda>kv. tree_leaves (tree_map f (snd kv))) kvs = map (\<lambda>kv. map f (tree_leaves (snd kv))) kvs"
    by (rule map_cong[OF refl]) (auto intro: PDict.IH simp: snds.simps)
  then show ?case by (simp add: map_concat comp_def del: map_eq_conv)
qed (simp_all add: tree_leaves_leaf assms)

lemma tree_structure_tree_map:
  assumes "\<And>x. is_leaf x \<Longrightarrow> is_leaf (f x)"
  shows "tree_structure (tree_map f v) = tree_structure v"
proof (induction v)
  case (PDict kvs)
  show ?case by (auto simp: snds.simps PDict.IH)
qed (simp_all add: tree_structure_leaf assms cong: map_cong)


lemma is_leaf_cast_arg: "is_leaf x \<Longrightarrow> is_leaf (if is_tensor x then cast_arg d x else x)"
  by (cases x) simp_all

lemma cast_arg_non_tensor: "\<not> is_tensor x \<Longrightarrow> cast_arg d x = x"
  by (cases x) simp_all

lemma tree_leaves_cast:
  "tree_leaves (tree_map_only is_tensor (cast_arg d) v) = map (cast_arg d) (tree_leaves v)"
proof -
  have "tree_leaves (tree_map_only is_tensor (cast_arg d) v)
        = map (\<lambda>x. if is_tensor x then cast_arg d x else x) (tree_leaves v)"
    unfolding tree_map_only_def by (rule tree_leaves_tree_map) (rule is_leaf_cast_arg)
  also have "\<dots> = map (cast_arg d) (tree_leaves v)"
    by (rule map_cong[OF refl]) (simp add: cast_arg_non_tensor)
  finally show ?thesis .
qed

lemma tree_structure_cast:
  "tree_structure (tree_map_only is_tensor (cast_arg d) v) = tree_structure v"
  unfolding tree_map_only_def by (rule tree_structure_tree_map) (rule is_leaf_cast_arg)

lemma leaf_tensor_cast: "leaf_tensor (cast_arg d x) = map (to_dtype d) (leaf_tensor x)"
  by (cases x) simp_all

lemma tensors_of_cast:
  "tensors_of (tree_map_only is_tensor (cast_arg d) v) = map (to_dtype d) (tensors_of v)"
  by (simp add: tensors_of_def tree_leaves_cast map_concat comp_def leaf_tensor_cast)

lemma tensor_dtype_to_dtype: "tensor_dtype (to_dtype d t) = d"
  by (cases t) simp_all

lemma device_of_to_dtype: "device_of (to_dtype d t) = device_of t"
  by (cases t) simp_all

lemma all_of_dtype_cast: "all_of_dtype d (tree_map_only is_tensor (cast_arg d) v)"
  by (simp add: all_of_dtype_def tensors_of_cast list_all_iff tensor_dtype_to_dtype)

lemma leaf_tensor_Nil_iff: "leaf_tensor x = [] \<longleftrightarrow> \<not> is_tensor x"
  by (cases x) simp_all

lemma tensors_of_Nil_iff: "tensors_of v = [] \<longleftrightarrow> (\<forall>x \<in> set (tree_leaves v). \<not> is_tensor x)"
  by (simp add: tensors_of_def leaf_tensor_Nil_iff)

lemma tree_map_id_on_leaves:
  "(\<And>x. x \<in> set (tree_leaves v) \<Longrightarrow> f x = x) \<Longrightarrow> tree_map f v = v"
proof (induction v)
  case (PTuple xs)
  then show ?case by (auto intro!: map_idI)
next
  case (PList xs)
  then show ?case by (auto intro!: map_idI)
next
  case (PDict kvs)
  have "map_prod id (tree_map f) kv = kv" if "kv \<in> set kvs" for kv
  proof -
    obtain k w where kv: "kv = (k, w)" by (cases kv)
    have "tree_map f w = w"
    proof (rule PDict.IH)
      show "kv \<in> set kvs" by (rule that)
      show "w \<in> Basic_BNFs.snds kv" by (simp add: kv snds.simps)
      fix x assume "x \<in> set (tree_leaves w)"
      then have "x \<in> set (tree_leaves (PDict kvs))" using that kv by force
      then show "f x = x" by (rule PDict.prems)
    qed
    then show ?thesis by (simp add: kv)
  qed
  then show ?case by (simp add: map_idI)
qed simp_all

lemma cast_no_tensor_id:
  "tensors_of v = [] \<Longrightarrow> tree_map_only is_tensor (cast_arg d) v = v"
  unfolding tree_map_only_def by (rule tree_map_id_on_leaves) (simp add: tensors_of_Nil_iff)


section \<open>The dense handler and the shape-inference handler\<close>


text \<open>
  C1: for every argument tuple the dense handler calls the wrapped operation on the
  arguments in which every tensor leaf is cast to \<open>out_dtype\<close>, at any depth, with the
  container structure of every argument kept, and returns the outcome of that call as it
  is; a callable operation is invoked exactly once.
\<close>

theorem dense_casts_invokes_returns:
  "(let casted_args = map (tree_map_only is_tensor (cast_arg out_dtype)) args
    in mixed_dtype_dense run op out_dtype args st = call_op run op casted_args st
     \<and> map tree_structure casted_args = map tree_structure args
     \<and> map tensors_of casted_args = map (\<lambda>arg. map (to_dtype out_dtype) (tensors_of arg)) args
     \<and> list_all (all_of_dtype out_dtype) casted_args
     \<and> (is_callable op \<longrightarrow>
          fst (mixed_dtype_dense run op out_dtype args st) = run op casted_args
        \<and> calls (snd (mixed_dtype_dense run op out_dtype args st)) = calls st @ [(op, casted_args)]))"
  by (simp add: Let_def mixed_dtype_dense_def call_op_def tree_structure_cast tensors_of_cast
      list_all_iff all_of_dtype_cast comp_def)

theorem dense_casts_invokes_returns_witness:
  "is_callable (OpOverload ''aten.clone.default'')
   \<and> mixed_dtype_dense first_arg_run (OpOverload ''aten.clone.default'') Float32
        [PList [PTensor (Real cpu Int8 False 0), PInt 7], PStr ''x''] idle_state
     = (Inr (PList [PTensor (Real cpu Float32 False 0), PInt 7]),
        idle_state\<lparr>calls := [(OpOverload ''aten.clone.default'',
                               [PList [PTensor (Real cpu Float32 False 0), PInt 7], PStr ''x''])]\<rparr>)"
  using dense_casts_invokes_returns [of Float32 "[PList [PTensor (Real cpu Int8 False 0), PInt 7], PStr ''x'']"
      first_arg_run "OpOverload ''aten.clone.default''" idle_state]
  by (simp add: Let_def tree_map_only_def call_op_def first_arg_run_def idle_state_def)

text \<open>
  C5: the shape-inference handler gives the outcome of the dense handler on every
  operation, precision, argument tuple and state.
\<close>

theorem fake_equals_dense:
  "mixed_dtype_fake_tensor_mode run op out_dtype args st = mixed_dtype_dense run op out_dtype args st"
  by (simp add: mixed_dtype_fake_tensor_mode_def)

theorem fake_equals_dense_witness:
  "mixed_dtype_fake_tensor_mode first_arg_run (OpOverload ''aten.clone.default'') Float32
     [PTensor (Real cpu Int8 False 0)] idle_state
   = (Inr (PTensor (Real cpu Float32 False 0)),
      idle_state\<lparr>calls := [(OpOverload ''aten.clone.default'', [PTensor (Real cpu Float32 False 0)])]\<rparr>)"
  using fake_equals_dense [of first_arg_run "OpOverload ''aten.clone.default''" Float32
      "[PTensor (Real cpu Int8 False 0)]" idle_state]
  by (simp add: mixed_dtype_dense_def tree_map_only_def call_op_def first_arg_run_def idle_state_def)

text \<open>
  C10: in the dense handler every leaf that is not a tensor reaches the wrapped operation
  as it is, at the position it had, and an argument without tensors is passed unchanged.
\<close>

theorem dense_keeps_non_tensors:
  "(let casted_args = map (tree_map_only is_tensor (cast_arg out_dtype)) args
    in mixed_dtype_dense run op out_dtype args st = call_op run op casted_args st
     \<and> length casted_args = length args
     \<and> (\<forall>i < length args.
          tree_structure (casted_args ! i) = tree_structure (args ! i)
        \<and> length (tree_leaves (casted_args ! i)) = length (tree_leaves (args ! i))
        \<and> (\<forall>j < length (tree_leaves (args ! i)).
              \<not> is_tensor (tree_leaves (args ! i) ! j) \<longrightarrow>
              tree_leaves (casted_args ! i) ! j = tree_leaves (args ! i) ! j)
        \<and> (tensors_of (args ! i) = [] \<longrightarrow> casted_args ! i = args ! i)))"
  by (simp add: Let_def mixed_dtype_dense_def tree_structure_cast tree_leaves_cast
      cast_arg_non_tensor cast_no_tensor_id)

theorem dense_keeps_non_tensors_witness:
  "tensors_of (PDict [(''alpha'', PInt 2)]) = []
   \<and> \<not> is_tensor (tree_leaves (PList [PTensor (Real cpu Int8 False 0), PInt 7]) ! 1)
   \<and> mixed_dtype_dense first_arg_run (OpOverload ''aten.clone.default'') Float32
        [PList [PTensor (Real cpu Int8 False 0), PInt 7], PDict [(''alpha'', PInt 2)]] idle_state
     = call_op first_arg_run (OpOverload ''aten.clone.default'')
        [PList [PTensor (Real cpu Float32 False 0), PInt 7], PDict [(''alpha'', PInt 2)]] idle_state"
  using dense_keeps_non_tensors [of Float32
      "[PList [PTensor (Real cpu Int8 False 0), PInt 7], PDict [(''alpha'', PInt 2)]]"
      first_arg_run "OpOverload ''aten.clone.default''" idle_state]
  by (simp add: Let_def tree_map_only_def tensors_of_def)


section \<open>Guards\<close>

lemma ExcludeDispatchKeyGuard_eq:
  "ExcludeDispatchKeyGuard ks st = (ks - excluded st, st\<lparr>excluded := excluded st \<union> ks\<rparr>)"
  by (simp add: ExcludeDispatchKeyGuard_def Let_def)

lemma args_tensors_leaves:
  "args_tensors args = concat (map leaf_tensor (tree_leaves (PTuple args)))"
  by (induction args) (simp_all add: args_tensors_def tensors_of_def)

lemma no_grad_check:
  "py_all (map (\<lambda>f. \<not> requires_grad_of f) (filter is_tensor ls))
   \<longleftrightarrow> \<not> list_ex requires_grad (concat (map leaf_tensor ls))"
proof (induction ls)
  case Nil
  show ?case by (simp add: py_all_def)
next
  case (Cons x xs)
  then show ?case by (cases x) (simp_all add: py_all_def)
qed

lemma autograd_assertion:
  "py_all (map (\<lambda>f. \<not> requires_grad_of f) (filter is_tensor (fst (tree_flatten (PTuple args)))))
   \<longleftrightarrow> \<not> list_ex requires_grad (args_tensors args)"
  unfolding args_tensors_leaves tree_flatten_def fst_conv by (rule no_grad_check)

lemma autograd_unfold:
  "mixed_dtype_autograd disp op d args st =
     (if list_ex requires_grad (args_tensors args) then (Inl AssertionError, st)
      else (case disp op d args (st\<lparr>excluded := insert AutogradCPU (excluded st)\<rparr>) of
              (Inr v, st2) \<Rightarrow> (Inr v, del_guard ({AutogradCPU} - excluded st) st2)
            | (Inl e, st2) \<Rightarrow>
                (Inl e, st2\<lparr>held_by_traceback := ({AutogradCPU} - excluded st) # held_by_traceback st2\<rparr>)))"
proof -
  have a: "py_all (map (\<lambda>f. \<not> requires_grad_of f) (filter is_tensor (tree_leaves (PTuple args))))
           \<longleftrightarrow> \<not> list_ex requires_grad (args_tensors args)"
    using autograd_assertion [of args] by (simp add: tree_flatten_def)
  show ?thesis
    unfolding mixed_dtype_autograd_def tree_flatten_def ExcludeDispatchKeyGuard_eq
    by (simp add: a split: prod.splits sum.splits del: tree_leaves.simps)
qed

lemmas handler_defs =
  mixed_dtype_dense_def mixed_dtype_fake_tensor_mode_def mixed_dtype_autograd_def
  mixed_dtype_proxy_def trace_mixed_dtype_def mixed_dtype_func_key_def
  mixed_dtype_func_interp_def lower_def try_finally_def disable_proxy_modes_tracing_def
  ExcludeDispatchKeyGuard_def del_guard_def call_op_def select_handler_def
  tree_map_only_def tree_flatten_def py_all_def args_tensors_def tensors_of_def
  unwrap_all_tensors_from_functional_def wrap_all_tensors_to_functional_def
  create_proxy_def track_tensor_tree_def unwrap_proxy_def mixed_dtype_operator_def Let_def

text \<open>
  C3: when some tensor leaf of the argument tuple requires gradient tracking, the autograd
  handler raises the assertion failure and leaves the state as it found it, whatever the
  re-invocation would do: nothing is dispatched and no wrapped operation is invoked. When
  no tensor leaf requires it, the assertion passes and the handler's result is the result
  of the re-invocation.
\<close>

theorem autograd_asserts_no_grad:
  "(list_ex requires_grad (args_tensors args) \<longrightarrow>
      mixed_dtype_autograd disp op out_dtype args st = (Inl AssertionError, st))
   \<and> (\<not> list_ex requires_grad (args_tensors args) \<longrightarrow>
      fst (mixed_dtype_autograd disp op out_dtype args st)
      = fst (disp op out_dtype args (st\<lparr>excluded := insert AutogradCPU (excluded st)\<rparr>)))"
  by (simp add: autograd_unfold split: prod.splits sum.splits)


theorem autograd_asserts_no_grad_witness:
  "list_ex requires_grad (args_tensors [PList [PTensor (Real cpu Float32 True 0)], PInt 1])
   \<and> mixed_dtype_autograd (mixed_dtype (Suc 0) first_arg_run) (OpOverload ''aten.clone.default'')
        Float16 [PList [PTensor (Real cpu Float32 True 0)], PInt 1] idle_state
       = (Inl AssertionError, idle_state)
   \<and> \<not> list_ex requires_grad (args_tensors [PList [PTensor (Real cpu Float32 False 0)], PInt 1])
   \<and> fst (mixed_dtype_autograd (mixed_dtype (Suc 0) first_arg_run) (OpOverload ''aten.clone.default'')
        Float16 [PList [PTensor (Real cpu Float32 False 0)], PInt 1] idle_state)
       = Inr (PList [PTensor (Real cpu Float16 False 0)])"
proof -
  have g: "list_ex requires_grad (args_tensors [PList [PTensor (Real cpu Float32 True 0)], PInt 1])"
    by (simp add: args_tensors_def tensors_of_def)
  have n: "\<not> list_ex requires_grad (args_tensors [PList [PTensor (Real cpu Float32 False 0)], PInt 1])"
    by (simp add: args_tensors_def tensors_of_def)
  have r: "fst (mixed_dtype (Suc 0) first_arg_run (OpOverload ''aten.clone.default'') Float16
             [PList [PTensor (Real cpu Float32 False 0)], PInt 1]
             (idle_state\<lparr>excluded := insert AutogradCPU (excluded idle_state)\<rparr>))
           = Inr (PList [PTensor (Real cpu Float16 False 0)])"
    by (simp add: handler_defs idle_state_def first_arg_run_def)
  show ?thesis
    using g n r
      autograd_asserts_no_grad [of "[PList [PTensor (Real cpu Float32 True 0)], PInt 1]"
        "mixed_dtype (Suc 0) first_arg_run" "OpOverload ''aten.clone.default''" Float16 idle_state]
      autograd_asserts_no_grad [of "[PList [PTensor (Real cpu Float32 False 0)], PInt 1]"
        "mixed_dtype (Suc 0) first_arg_run" "OpOverload ''aten.clone.default''" Float16 idle_state]
    by simp
qed

section \<open>Release of the functionalization guards\<close>

lemma func_key_unfold:
  "mixed_dtype_func_key disp op d args st =
     (case disp op d (map (\<lambda>arg. unwrap_all_tensors_from_functional arg (reapply_views_tls st)) args)
             (st\<lparr>excluded := insert Functionalize (excluded st)\<rparr>) of
        (Inl e, s2) \<Rightarrow> (Inl e, del_guard ({Functionalize} - excluded st) s2)
      | (Inr r, s2) \<Rightarrow>
          (wrap_all_tensors_to_functional r 0, del_guard ({Functionalize} - excluded st) s2))"
  by (simp add: mixed_dtype_func_key_def ExcludeDispatchKeyGuard_eq try_finally_def Let_def
      split: prod.splits sum.splits)

lemma func_interp_unfold:
  "interpreter_stack st = i # rest \<Longrightarrow>
   mixed_dtype_func_interp disp interp op d args st =
     (case disp op d
             (map (\<lambda>arg. unwrap_all_tensors_from_functional arg (functionalize_add_back_views interp)) args)
             (st\<lparr>interpreter_stack := rest\<rparr>) of
        (Inl e, s2) \<Rightarrow> (Inl e, s2\<lparr>interpreter_stack := i # interpreter_stack s2\<rparr>)
      | (Inr r, s2) \<Rightarrow>
          (wrap_all_tensors_to_functional r (level interp),
           s2\<lparr>interpreter_stack := i # interpreter_stack s2\<rparr>))"
  by (simp add: mixed_dtype_func_interp_def lower_def try_finally_def Let_def
      split: prod.splits sum.splits)

text \<open>
  C7: in the handler registered for the functionalization key, whatever the nested
  re-invocation does, also when it raises, the keys the guard added are no longer excluded
  when the handler is left, and an exception of the re-invocation propagates. In the
  handler registered for the functionalization transform, whatever the nested
  re-invocation does, also when it raises, the interpreter that \<open>lower\<close> took off the
  stack is back on top when the handler is left. If the re-invocation leaves the exclusion
  set (the interpreter stack) as it found it, the handler leaves it as it was before the
  call.
\<close>

theorem functionalize_guards_released:
  assumes "st1 = st\<lparr>excluded := insert Functionalize (excluded st)\<rparr>"
      and "disp op out_dtype
             (map (\<lambda>arg. unwrap_all_tensors_from_functional arg (reapply_views_tls st)) args) st1
           = (res, st2)"
      and "interpreter_stack sti = i # rest"
      and "disp op out_dtype
             (map (\<lambda>arg. unwrap_all_tensors_from_functional arg (functionalize_add_back_views interp)) args)
             (sti\<lparr>interpreter_stack := rest\<rparr>)
           = (resi, sti2)"
  shows "excluded (snd (mixed_dtype_func_key disp op out_dtype args st))
         = excluded st2 - ({Functionalize} - excluded st)
       \<and> (\<forall>e. res = Inl e \<longrightarrow> fst (mixed_dtype_func_key disp op out_dtype args st) = Inl e)
       \<and> (excluded st2 = excluded st1 \<longrightarrow>
            excluded (snd (mixed_dtype_func_key disp op out_dtype args st)) = excluded st)
       \<and> interpreter_stack (snd (mixed_dtype_func_interp disp interp op out_dtype args sti))
         = i # interpreter_stack sti2
       \<and> (\<forall>e. resi = Inl e \<longrightarrow> fst (mixed_dtype_func_interp disp interp op out_dtype args sti) = Inl e)
       \<and> (interpreter_stack sti2 = rest \<longrightarrow>
            interpreter_stack (snd (mixed_dtype_func_interp disp interp op out_dtype args sti))
            = interpreter_stack sti)"
proof -
  have k: "mixed_dtype_func_key disp op out_dtype args st =
     (case res of
        Inl e \<Rightarrow> (Inl e, del_guard ({Functionalize} - excluded st) st2)
      | Inr r \<Rightarrow> (wrap_all_tensors_to_functional r 0, del_guard ({Functionalize} - excluded st) st2))"
    using assms(1,2) by (simp add: func_key_unfold split: sum.splits)
  have l: "mixed_dtype_func_interp disp interp op out_dtype args sti =
     (case resi of
        Inl e \<Rightarrow> (Inl e, sti2\<lparr>interpreter_stack := i # interpreter_stack sti2\<rparr>)
      | Inr r \<Rightarrow> (wrap_all_tensors_to_functional r (level interp),
                  sti2\<lparr>interpreter_stack := i # interpreter_stack sti2\<rparr>))"
    using assms(3,4) by (simp add: func_interp_unfold split: sum.splits)
  have "excluded (snd (mixed_dtype_func_key disp op out_dtype args st))
        = excluded st2 - ({Functionalize} - excluded st)"
    by (simp add: k del_guard_def split: sum.splits)
  moreover have "\<forall>e. res = Inl e \<longrightarrow> fst (mixed_dtype_func_key disp op out_dtype args st) = Inl e"
    by (simp add: k)
  moreover have "excluded st2 = excluded st1 \<longrightarrow>
      excluded (snd (mixed_dtype_func_key disp op out_dtype args st)) = excluded st"
    using assms(1) by (auto simp: k del_guard_def split: sum.splits)
  moreover have "interpreter_stack (snd (mixed_dtype_func_interp disp interp op out_dtype args sti))
      = i # interpreter_stack sti2"
    by (simp add: l split: sum.splits)
  moreover have "\<forall>e. resi = Inl e \<longrightarrow> fst (mixed_dtype_func_interp disp interp op out_dtype args sti) = Inl e"
    by (simp add: l)
  moreover have "interpreter_stack sti2 = rest \<longrightarrow>
      interpreter_stack (snd (mixed_dtype_func_interp disp interp op out_dtype args sti))
      = interpreter_stack sti"
    using assms(3) by (simp add: l split: sum.splits)
  ultimately show ?thesis by blast
qed


theorem functionalize_guards_released_witness:
  "fst (mixed_dtype_func_key (mixed_dtype (Suc (Suc 0)) failing_run) (OpOverload ''aten.mm.default'')
          Float16 [PTensor (FunctionalTensor 1 cpu Float32 False 0)] idle_state)
     = Inl (OpError ''shape mismatch'')
   \<and> Functionalize \<notin> excluded (snd (mixed_dtype_func_key (mixed_dtype (Suc (Suc 0)) failing_run)
          (OpOverload ''aten.mm.default'') Float16
          [PTensor (FunctionalTensor 1 cpu Float32 False 0)] idle_state))
   \<and> fst (mixed_dtype_func_interp (mixed_dtype (Suc (Suc 0)) failing_run)
          \<lparr>transform = TT_Functionalize, level = 1, functionalize_add_back_views = True\<rparr>
          (OpOverload ''aten.mm.default'') Float16
          [PTensor (FunctionalTensor 1 cpu Float32 False 0)]
          (idle_state\<lparr>interpreter_stack :=
             [\<lparr>transform = TT_Functionalize, level = 1, functionalize_add_back_views = True\<rparr>]\<rparr>))
     = Inl (OpError ''shape mismatch'')
   \<and> interpreter_stack (snd (mixed_dtype_func_interp (mixed_dtype (Suc (Suc 0)) failing_run)
          \<lparr>transform = TT_Functionalize, level = 1, functionalize_add_back_views = True\<rparr>
          (OpOverload ''aten.mm.default'') Float16
          [PTensor (FunctionalTensor 1 cpu Float32 False 0)]
          (idle_state\<lparr>interpreter_stack :=
             [\<lparr>transform = TT_Functionalize, level = 1, functionalize_add_back_views = True\<rparr>]\<rparr>)))
     = [\<lparr>transform = TT_Functionalize, level = 1, functionalize_add_back_views = True\<rparr>]"
proof -
  let ?disp = "mixed_dtype (Suc (Suc 0)) failing_run"
  let ?op = "OpOverload ''aten.mm.default''"
  let ?i = "\<lparr>transform = TT_Functionalize, level = 1, functionalize_add_back_views = True\<rparr>"
  let ?sti = "idle_state\<lparr>interpreter_stack := [?i]\<rparr>"
  let ?st1 = "idle_state\<lparr>excluded := insert Functionalize (excluded idle_state)\<rparr>"
  let ?call = "[(?op, [PTensor (Real cpu Float16 False 0)])]"
  have a: "?disp ?op Float16
             (map (\<lambda>arg. unwrap_all_tensors_from_functional arg (reapply_views_tls idle_state))
                [PTensor (FunctionalTensor 1 cpu Float32 False 0)]) ?st1
           = (Inl (OpError ''shape mismatch''),
              ?st1\<lparr>excluded := {AutogradCPU, Functionalize}, calls := ?call,
                    held_by_traceback := [{AutogradCPU}]\<rparr>)"
    by (simp add: handler_defs idle_state_def failing_run_def insert_commute)
  have s: "interpreter_stack ?sti = [?i]" by simp
  have b: "?disp ?op Float16
             (map (\<lambda>arg. unwrap_all_tensors_from_functional arg (functionalize_add_back_views ?i))
                [PTensor (FunctionalTensor 1 cpu Float32 False 0)])
             (?sti\<lparr>interpreter_stack := []\<rparr>)
           = (Inl (OpError ''shape mismatch''),
              idle_state\<lparr>excluded := {AutogradCPU}, calls := ?call,
                    held_by_traceback := [{AutogradCPU}]\<rparr>)"
    by (simp add: handler_defs idle_state_def failing_run_def)
  show ?thesis
    using functionalize_guards_released [where disp = ?disp and st = idle_state and sti = ?sti
        and interp = ?i, OF refl a s b]
    by (simp add: idle_state_def)
qed


section \<open>The trace handler\<close>

lemma is_OpOverload_callable: "is_OpOverload op \<Longrightarrow> is_callable op"
  by (cases op) simp_all

lemma trace_rejects_non_overload:
  "\<not> is_OpOverload op \<Longrightarrow>
   trace_mixed_dtype run pm func_overload op d args st
   = (Inl (ValueError ''mixed_dtype's first argument must be an OpOverload''), st)"
  by (simp add: trace_mixed_dtype_def)

lemma trace_success:
  assumes "is_OpOverload op"
      and "run op (map (tree_map_only is_tensor (cast_arg d)) args) = Inr out"
  shows "trace_mixed_dtype run pm func_overload op d args st =
     (Inr out,
      st\<lparr>calls := calls st @ [(op, map (tree_map_only is_tensor (cast_arg d)) args)],
         tracers := (tracers st)(tracer pm :=
           (tracers st (tracer pm))\<lparr>graph := graph (tracers st (tracer pm)) @
              [\<lparr>n_kind = ''call_function'', n_target = op_name func_overload,
                n_args = POp op # PDtype d # map (tree_map (unwrap_proxy (tracers st (tracer pm)))) args,
                n_kwargs = [], n_name = ''mixed_dtype''\<rparr>],
            tensor_tracker := map (\<lambda>t. (t, length (graph (tracers st (tracer pm))))) (tensors_of out)
                             @ tensor_tracker (tracers st (tracer pm))\<rparr>)\<rparr>)"
  using assms
  by (simp add: trace_mixed_dtype_def disable_proxy_modes_tracing_def try_finally_def call_op_def
      is_OpOverload_callable create_proxy_def track_tensor_tree_def Let_def unwrap_proxy_def)


lemma tensor_leaf_in_tensors_of: "PTensor t \<in> set (tree_leaves v) \<Longrightarrow> t \<in> set (tensors_of v)"
  by (force simp: tensors_of_def)

lemma unwrap_proxy_untracked:
  assumes "\<forall>t \<in> set (tensors_of v). map_of (tensor_tracker tr) t = None"
  shows "tree_map (unwrap_proxy tr) v = v"
proof (rule tree_map_id_on_leaves)
  fix x assume x: "x \<in> set (tree_leaves v)"
  show "unwrap_proxy tr x = x"
  proof (cases x)
    case (PTensor t)
    then have "t \<in> set (tensors_of v)" using x by (simp add: tensor_leaf_in_tensors_of)
    then have "map_of (tensor_tracker tr) t = None" using assms by blast
    then show ?thesis by (simp add: unwrap_proxy_def PTensor)
  qed (simp_all add: unwrap_proxy_def)
qed

lemma proxy_tracing_outcome:
  assumes "mode_stack st = ProxyTorchDispatchMode pm # rest"
      and "enable_tracing pm"
      and "is_OpOverload op"
      and "run op (map (tree_map_only is_tensor (cast_arg d)) args) = Inr out"
  shows "mixed_dtype_proxy disp run op d args st =
     (Inr out,
      st\<lparr>calls := calls st @ [(op, map (tree_map_only is_tensor (cast_arg d)) args)],
         tracers := (tracers st)(tracer pm :=
           (tracers st (tracer pm))\<lparr>graph := graph (tracers st (tracer pm)) @
              [\<lparr>n_kind = ''call_function'', n_target = ''mixed_dtype'',
                n_args = POp op # PDtype d # map (tree_map (unwrap_proxy (tracers st (tracer pm)))) args,
                n_kwargs = [], n_name = ''mixed_dtype''\<rparr>],
            tensor_tracker := map (\<lambda>t. (t, length (graph (tracers st (tracer pm))))) (tensors_of out)
                             @ tensor_tracker (tracers st (tracer pm))\<rparr>)\<rparr>)"
proof -
  have p: "mixed_dtype_proxy disp run op d args st =
     (let (res, s) = trace_mixed_dtype run pm mixed_dtype_operator op d args (st\<lparr>mode_stack := rest\<rparr>)
      in (res, s\<lparr>mode_stack := ProxyTorchDispatchMode pm # mode_stack s\<rparr>))"
    using assms(1,2) by (simp add: mixed_dtype_proxy_def try_finally_def)
  show ?thesis
    unfolding p
    using trace_success [where run = run and op = op and d = d and args = args and out = out
        and pm = pm and func_overload = mixed_dtype_operator and st = "st\<lparr>mode_stack := rest\<rparr>",
        OF assms(3,4)] assms(1)
    by (simp add: mixed_dtype_operator_def)
qed

text \<open>
  C4: with a graph-capture mode innermost and capture enabled, for an \<open>OpOverload\<close> whose
  call on the casted arguments returns, the handler appends one node to the graph of the
  mode's tracer: a \<open>call_function\<close> node for the operator, created under the name
  \<open>mixed_dtype\<close>, whose arguments are the operation reference, the precision and the
  original argument tuple, with proxies in place of the tensors the tracer tracks and
  nothing cast (for arguments the tracer does not track, the argument tuple itself). The
  value returned is the result of the wrapped operation on the casted arguments, and the
  mode is back on the stack.
\<close>

theorem proxy_records_original_returns_casted:
  assumes "mode_stack st = ProxyTorchDispatchMode pm # rest"
      and "enable_tracing pm"
      and "is_OpOverload op"
      and "casted_args = map (tree_map_only is_tensor (cast_arg out_dtype)) args"
      and "run op casted_args = Inr out"
  shows "fst (mixed_dtype_proxy disp run op out_dtype args st) = Inr out
       \<and> graph (tracers (snd (mixed_dtype_proxy disp run op out_dtype args st)) (tracer pm))
         = graph (tracers st (tracer pm)) @
           [\<lparr>n_kind = ''call_function'', n_target = ''mixed_dtype'',
             n_args = POp op # PDtype out_dtype
                      # map (tree_map (unwrap_proxy (tracers st (tracer pm)))) args,
             n_kwargs = [], n_name = ''mixed_dtype''\<rparr>]
       \<and> ((\<forall>t \<in> set (args_tensors args). map_of (tensor_tracker (tracers st (tracer pm))) t = None)
            \<longrightarrow> map (tree_map (unwrap_proxy (tracers st (tracer pm)))) args = args)
       \<and> calls (snd (mixed_dtype_proxy disp run op out_dtype args st)) = calls st @ [(op, casted_args)]
       \<and> mode_stack (snd (mixed_dtype_proxy disp run op out_dtype args st)) = mode_stack st"
proof -
  have o: "mixed_dtype_proxy disp run op out_dtype args st =
     (Inr out,
      st\<lparr>calls := calls st @ [(op, casted_args)],
         tracers := (tracers st)(tracer pm :=
           (tracers st (tracer pm))\<lparr>graph := graph (tracers st (tracer pm)) @
              [\<lparr>n_kind = ''call_function'', n_target = ''mixed_dtype'',
                n_args = POp op # PDtype out_dtype
                         # map (tree_map (unwrap_proxy (tracers st (tracer pm)))) args,
                n_kwargs = [], n_name = ''mixed_dtype''\<rparr>],
            tensor_tracker := map (\<lambda>t. (t, length (graph (tracers st (tracer pm))))) (tensors_of out)
                             @ tensor_tracker (tracers st (tracer pm))\<rparr>)\<rparr>)"
    using proxy_tracing_outcome [where run = run and op = op and d = out_dtype and args = args
        and out = out and disp = disp and st = st and pm = pm and rest = rest] assms
    by simp
  have u: "(\<forall>t \<in> set (args_tensors args). map_of (tensor_tracker (tracers st (tracer pm))) t = None)
            \<longrightarrow> map (tree_map (unwrap_proxy (tracers st (tracer pm)))) args = args"
  proof
    assume h: "\<forall>t \<in> set (args_tensors args). map_of (tensor_tracker (tracers st (tracer pm))) t = None"
    show "map (tree_map (unwrap_proxy (tracers st (tracer pm)))) args = args"
    proof (rule map_idI)
      fix a assume "a \<in> set args"
      then have "\<forall>t \<in> set (tensors_of a). map_of (tensor_tracker (tracers st (tracer pm))) t = None"
        using h by (auto simp: args_tensors_def)
      then show "tree_map (unwrap_proxy (tracers st (tracer pm))) a = a"
        by (rule unwrap_proxy_untracked)
    qed
  qed
  show ?thesis using u by (simp add: o)
qed

theorem proxy_records_original_returns_casted_witness:
  "is_OpOverload (OpOverload ''aten.clone.default'')
   \<and> fst (mixed_dtype_proxy (mixed_dtype (Suc 0) first_arg_run) first_arg_run
          (OpOverload ''aten.clone.default'') Float16 [PTensor (Real cpu Float32 False 0), PInt 3]
          (idle_state\<lparr>mode_stack := [ProxyTorchDispatchMode \<lparr>enable_tracing = True, tracer = 0\<rparr>]\<rparr>))
     = Inr (PTensor (Real cpu Float16 False 0))
   \<and> graph (tracers (snd (mixed_dtype_proxy (mixed_dtype (Suc 0) first_arg_run) first_arg_run
          (OpOverload ''aten.clone.default'') Float16 [PTensor (Real cpu Float32 False 0), PInt 3]
          (idle_state\<lparr>mode_stack := [ProxyTorchDispatchMode \<lparr>enable_tracing = True, tracer = 0\<rparr>]\<rparr>))) 0)
     = [\<lparr>n_kind = ''call_function'', n_target = ''mixed_dtype'',
         n_args = [POp (OpOverload ''aten.clone.default''), PDtype Float16,
                   PTensor (Real cpu Float32 False 0), PInt 3],
         n_kwargs = [], n_name = ''mixed_dtype''\<rparr>]"
proof -
  let ?pm = "\<lparr>enable_tracing = True, tracer = 0\<rparr>"
  let ?st = "idle_state\<lparr>mode_stack := [ProxyTorchDispatchMode ?pm]\<rparr>"
  have m: "mode_stack ?st = ProxyTorchDispatchMode ?pm # []" by simp
  have e: "enable_tracing ?pm" by simp
  have o: "is_OpOverload (OpOverload ''aten.clone.default'')" by simp
  have r: "first_arg_run (OpOverload ''aten.clone.default'')
             (map (tree_map_only is_tensor (cast_arg Float16)) [PTensor (Real cpu Float32 False 0), PInt 3])
           = Inr (PTensor (Real cpu Float16 False 0))"
    by (simp add: first_arg_run_def tree_map_only_def)
  show ?thesis
    using o proxy_records_original_returns_casted [where disp = "mixed_dtype (Suc 0) first_arg_run"
        and st = ?st and pm = ?pm and run = first_arg_run and out_dtype = Float16
        and args = "[PTensor (Real cpu Float32 False 0), PInt 3]", OF m e o refl r]
    by (simp add: idle_state_def unwrap_proxy_def)
qed

section \<open>Operation references that are not overloads\<close>

text \<open>
  C2 fails on the code: only \<open>trace_mixed_dtype\<close> checks the operation reference. The
  dense handler, given a callable that is not an \<open>OpOverload\<close>, casts the arguments,
  invokes it and returns its result, and so does a call of the operator that is
  dispatched through the autograd handler to the dense handler.
\<close>

theorem dense_invokes_non_overload:
  "\<not> is_OpOverload (OtherCallable ''torch.add'')
   \<and> mixed_dtype_dense first_arg_run (OtherCallable ''torch.add'') Int32
        [PTensor (Real cpu Int8 False 0), PTensor (Real cpu Int8 False 1)] idle_state
     = (Inr (PTensor (Real cpu Int32 False 0)),
        idle_state\<lparr>calls := [(OtherCallable ''torch.add'',
                               [PTensor (Real cpu Int32 False 0), PTensor (Real cpu Int32 False 1)])]\<rparr>)
   \<and> fst (mixed_dtype (Suc (Suc 0)) first_arg_run (OtherCallable ''torch.add'') Int32
        [PTensor (Real cpu Int8 False 0), PTensor (Real cpu Int8 False 1)] idle_state)
     = Inr (PTensor (Real cpu Int32 False 0))"
  by (simp add: handler_defs idle_state_def first_arg_run_def)


section \<open>Wrapping and unwrapping functionalized tensors\<close>











lemma tensor_dtype_unwrap_tensor: "tensor_dtype (unwrap_tensor t) = tensor_dtype t"
  by (cases t) simp_all






lemma wrap_all_functional:
  "list_ex is_functional (tensors_of r) \<Longrightarrow> wrap_all_tensors_to_functional r l = Inl RuntimeError"
  by (simp add: wrap_all_tensors_to_functional_def)



section \<open>The outcome of a call of the operator\<close>





lemma autograd_passes_on:
  assumes "\<not> list_ex requires_grad (args_tensors args)"
  shows "fst (mixed_dtype_autograd disp op d args st)
           = fst (disp op d args (st\<lparr>excluded := insert AutogradCPU (excluded st)\<rparr>))
       \<and> calls (snd (mixed_dtype_autograd disp op d args st))
           = calls (snd (disp op d args (st\<lparr>excluded := insert AutogradCPU (excluded st)\<rparr>)))"
  using assms by (simp add: autograd_unfold del_guard_def split: prod.splits sum.splits)















section \<open>The precision of the result in every mode\<close>






section \<open>The round trip of the functionalization handlers\<close>






section \<open>The guard of the autograd handler\<close>

lemma other_backend_never_returns:
  "interpreter_stack st = [] \<Longrightarrow> AutogradCUDA \<notin> excluded st \<Longrightarrow>
   fst (mixed_dtype n run op d [PTensor (Real cuda d' False c)] st) = Inl RecursionError"
proof (induction n arbitrary: st)
  case 0
  show ?case by simp
next
  case (Suc n)
  let ?args = "[PTensor (Real cuda d' False c)]"
  let ?st1 = "st\<lparr>excluded := insert AutogradCPU (excluded st)\<rparr>"
  have sel: "select_handler st ?args = AutogradHandler"
    using Suc.prems by (simp add: select_handler_def args_tensors_def tensors_of_def)
  have g: "\<not> list_ex requires_grad (args_tensors ?args)"
    by (simp add: args_tensors_def tensors_of_def)
  have "fst (mixed_dtype n run op d ?args ?st1) = Inl RecursionError"
    using Suc.prems by (intro Suc.IH) simp_all
  then show ?case
    using sel autograd_passes_on [OF g, of "mixed_dtype n run" op d st] by simp
qed


text \<open>
  For a CPU tensor and a re-invocation that returns, the keys the guard added are no
  longer excluded when the handler returns.
\<close>

lemma autograd_guard_released_on_return:
  assumes "\<not> list_ex requires_grad (args_tensors args)"
      and "disp op d args (st\<lparr>excluded := insert AutogradCPU (excluded st)\<rparr>) = (Inr v, st2)"
  shows "mixed_dtype_autograd disp op d args st = (Inr v, del_guard ({AutogradCPU} - excluded st) st2)"
  using assms by (simp add: autograd_unfold)

end
